theory Spec2Isabelle
  imports Main "HOL-Library.Word"
begin

unbundle bit_operations_syntax

section \<open>Data model of IPAddressV6.cpp\<close>

text \<open>
  An IPv6 address is the 16-byte buffer \<open>addr_\<close> (a union of \<open>in6_addr\<close> and
  \<open>ByteArray16\<close>, read through \<open>bytes()\<close>) together with the 16-bit \<open>scope_\<close>.
  Byte buffers are lists of 8-bit words; a \<open>ByteArray16\<close> is such a list of length 16,
  a \<open>ByteRange\<close> one of any length. \<open>size_t\<close> arguments are natural numbers: the
  code only compares them and prints them.
\<close>

type_synonym ByteArray16 = "8 word list"
type_synonym ByteRange = "8 word list"

record IPAddressV6 =
  addr :: ByteArray16
  scope :: "16 word"

text \<open>The six bytes of a MAC address, \<open>mac.bytes()\<close>.\<close>

datatype MacAddress = MacAddress "8 word" "8 word" "8 word" "8 word" "8 word" "8 word"

fun mac_bytes :: "MacAddress \<Rightarrow> 8 word list" where
  "mac_bytes (MacAddress m0 m1 m2 m3 m4 m5) = [m0, m1, m2, m3, m4, m5]"

text \<open>An IPv4 address as its four octets in memory (network) order.\<close>

datatype IPAddressV4 = IPAddressV4 "8 word" "8 word" "8 word" "8 word"

datatype Type = TEREDO | T6TO4 | NORMAL

text \<open>
  What a call can end with instead of a value: one of the two exception classes thrown in
  the file, carrying its message, or the abort of a failed \<open>DCHECK\<close>.
\<close>

datatype failure =
    IPAddressFormatException string
  | TypeError string
  | DCheckFailure

text \<open>
  The collaborators outside the file: the platform's \<open>getnameinfo\<close> on the socket
  address built from the buffer and the scope (\<open>None\<close> when it reports an error),
  \<open>detail::Bytes::toHex\<close>, the hash of an IPv4 address, \<open>SpookyHashV2::Hash128\<close>
  (data, length, the two seeds), \<open>hash_combine\<close>, and the platform constant
  \<open>AF_INET6\<close>.
\<close>

record collaborators =
  getnameinfo :: "ByteArray16 \<Rightarrow> 16 word \<Rightarrow> string option"
  toHex :: "8 word list \<Rightarrow> nat \<Rightarrow> string"
  hashV4 :: "IPAddressV4 \<Rightarrow> 64 word"
  Hash128 :: "8 word list \<Rightarrow> nat \<Rightarrow> 64 word \<Rightarrow> 64 word \<Rightarrow> 64 word \<times> 64 word"
  hash_combine :: "64 word \<Rightarrow> 64 word \<Rightarrow> 64 word \<Rightarrow> 64 word"
  AF_INET6 :: "64 word"

definition PREFIX_TEREDO :: "32 word" where
  "PREFIX_TEREDO = 0x20010000"

definition PREFIX_6TO4 :: "32 word" where
  "PREFIX_6TO4 = 0x2002"

text \<open>\<open>to<std::string>\<close> on an unsigned number: its decimal digits.\<close>

fun to_string :: "nat \<Rightarrow> string" where
  "to_string n =
     (if n < 10 then [''0123456789'' ! n]
      else to_string (n div 10) @ [''0123456789'' ! (n mod 10)])"

declare to_string.simps [simp del]

section \<open>Declarations the source file relies on\<close>

definition bitCount :: nat where
  \<comment> \<open>Modelled from the spec: \<open>bitCount()\<close> is declared in the class header, which is
      not among the sources; the address is a 128-bit value.\<close>
  "bitCount = 128"

definition scope_default :: "16 word" where
  \<comment> \<open>Modelled from the spec: the initial value of the member \<open>scope_\<close> is given in
      the class header, which is not among the sources; the scope identifier defaults to 0.\<close>
  "scope_default = 0"

definition Bytes_mask :: "8 word list \<Rightarrow> 8 word list \<Rightarrow> 8 word list" where
  \<comment> \<open>Modelled from the spec: \<open>detail::Bytes::mask\<close> is not among the sources; it is the
      byte-wise AND of two buffers of the same size.\<close>
  "Bytes_mask a b = map2 (AND) a b"

definition mkAddress4 :: "8 word list \<Rightarrow> IPAddressV4" where
  \<comment> \<open>Modelled from the spec: \<open>detail::Bytes::mkAddress4\<close> is not among the sources; it
      takes the four bytes it is pointed at as the IPv4 value.\<close>
  "mkAddress4 src = IPAddressV4 (src ! 0) (src ! 1) (src ! 2) (src ! 3)"

section \<open>The mask table\<close>

definition masks :: "ByteArray16 list" where
  "masks = [
   [0x00, 0x00, 0x00, 0x00, 0x00, 0x00, 0x00, 0x00, 0x00, 0x00, 0x00, 0x00, 0x00, 0x00, 0x00, 0x00],
   [0x80, 0x00, 0x00, 0x00, 0x00, 0x00, 0x00, 0x00, 0x00, 0x00, 0x00, 0x00, 0x00, 0x00, 0x00, 0x00],
   [0xC0, 0x00, 0x00, 0x00, 0x00, 0x00, 0x00, 0x00, 0x00, 0x00, 0x00, 0x00, 0x00, 0x00, 0x00, 0x00],
   [0xE0, 0x00, 0x00, 0x00, 0x00, 0x00, 0x00, 0x00, 0x00, 0x00, 0x00, 0x00, 0x00, 0x00, 0x00, 0x00],
   [0xF0, 0x00, 0x00, 0x00, 0x00, 0x00, 0x00, 0x00, 0x00, 0x00, 0x00, 0x00, 0x00, 0x00, 0x00, 0x00],
   [0xF8, 0x00, 0x00, 0x00, 0x00, 0x00, 0x00, 0x00, 0x00, 0x00, 0x00, 0x00, 0x00, 0x00, 0x00, 0x00],
   [0xFC, 0x00, 0x00, 0x00, 0x00, 0x00, 0x00, 0x00, 0x00, 0x00, 0x00, 0x00, 0x00, 0x00, 0x00, 0x00],
   [0xFE, 0x00, 0x00, 0x00, 0x00, 0x00, 0x00, 0x00, 0x00, 0x00, 0x00, 0x00, 0x00, 0x00, 0x00, 0x00],
   [0xFF, 0x00, 0x00, 0x00, 0x00, 0x00, 0x00, 0x00, 0x00, 0x00, 0x00, 0x00, 0x00, 0x00, 0x00, 0x00],
   [0xFF, 0x80, 0x00, 0x00, 0x00, 0x00, 0x00, 0x00, 0x00, 0x00, 0x00, 0x00, 0x00, 0x00, 0x00, 0x00],
   [0xFF, 0xC0, 0x00, 0x00, 0x00, 0x00, 0x00, 0x00, 0x00, 0x00, 0x00, 0x00, 0x00, 0x00, 0x00, 0x00],
   [0xFF, 0xE0, 0x00, 0x00, 0x00, 0x00, 0x00, 0x00, 0x00, 0x00, 0x00, 0x00, 0x00, 0x00, 0x00, 0x00],
   [0xFF, 0xF0, 0x00, 0x00, 0x00, 0x00, 0x00, 0x00, 0x00, 0x00, 0x00, 0x00, 0x00, 0x00, 0x00, 0x00],
   [0xFF, 0xF8, 0x00, 0x00, 0x00, 0x00, 0x00, 0x00, 0x00, 0x00, 0x00, 0x00, 0x00, 0x00, 0x00, 0x00],
   [0xFF, 0xFC, 0x00, 0x00, 0x00, 0x00, 0x00, 0x00, 0x00, 0x00, 0x00, 0x00, 0x00, 0x00, 0x00, 0x00],
   [0xFF, 0xFE, 0x00, 0x00, 0x00, 0x00, 0x00, 0x00, 0x00, 0x00, 0x00, 0x00, 0x00, 0x00, 0x00, 0x00],
   [0xFF, 0xFF, 0x00, 0x00, 0x00, 0x00, 0x00, 0x00, 0x00, 0x00, 0x00, 0x00, 0x00, 0x00, 0x00, 0x00],
   [0xFF, 0xFF, 0x80, 0x00, 0x00, 0x00, 0x00, 0x00, 0x00, 0x00, 0x00, 0x00, 0x00, 0x00, 0x00, 0x00],
   [0xFF, 0xFF, 0xC0, 0x00, 0x00, 0x00, 0x00, 0x00, 0x00, 0x00, 0x00, 0x00, 0x00, 0x00, 0x00, 0x00],
   [0xFF, 0xFF, 0xE0, 0x00, 0x00, 0x00, 0x00, 0x00, 0x00, 0x00, 0x00, 0x00, 0x00, 0x00, 0x00, 0x00],
   [0xFF, 0xFF, 0xF0, 0x00, 0x00, 0x00, 0x00, 0x00, 0x00, 0x00, 0x00, 0x00, 0x00, 0x00, 0x00, 0x00],
   [0xFF, 0xFF, 0xF8, 0x00, 0x00, 0x00, 0x00, 0x00, 0x00, 0x00, 0x00, 0x00, 0x00, 0x00, 0x00, 0x00],
   [0xFF, 0xFF, 0xFC, 0x00, 0x00, 0x00, 0x00, 0x00, 0x00, 0x00, 0x00, 0x00, 0x00, 0x00, 0x00, 0x00],
   [0xFF, 0xFF, 0xFE, 0x00, 0x00, 0x00, 0x00, 0x00, 0x00, 0x00, 0x00, 0x00, 0x00, 0x00, 0x00, 0x00],
   [0xFF, 0xFF, 0xFF, 0x00, 0x00, 0x00, 0x00, 0x00, 0x00, 0x00, 0x00, 0x00, 0x00, 0x00, 0x00, 0x00],
   [0xFF, 0xFF, 0xFF, 0x80, 0x00, 0x00, 0x00, 0x00, 0x00, 0x00, 0x00, 0x00, 0x00, 0x00, 0x00, 0x00],
   [0xFF, 0xFF, 0xFF, 0xC0, 0x00, 0x00, 0x00, 0x00, 0x00, 0x00, 0x00, 0x00, 0x00, 0x00, 0x00, 0x00],
   [0xFF, 0xFF, 0xFF, 0xE0, 0x00, 0x00, 0x00, 0x00, 0x00, 0x00, 0x00, 0x00, 0x00, 0x00, 0x00, 0x00],
   [0xFF, 0xFF, 0xFF, 0xF0, 0x00, 0x00, 0x00, 0x00, 0x00, 0x00, 0x00, 0x00, 0x00, 0x00, 0x00, 0x00],
   [0xFF, 0xFF, 0xFF, 0xF8, 0x00, 0x00, 0x00, 0x00, 0x00, 0x00, 0x00, 0x00, 0x00, 0x00, 0x00, 0x00],
   [0xFF, 0xFF, 0xFF, 0xFC, 0x00, 0x00, 0x00, 0x00, 0x00, 0x00, 0x00, 0x00, 0x00, 0x00, 0x00, 0x00],
   [0xFF, 0xFF, 0xFF, 0xFE, 0x00, 0x00, 0x00, 0x00, 0x00, 0x00, 0x00, 0x00, 0x00, 0x00, 0x00, 0x00],
   [0xFF, 0xFF, 0xFF, 0xFF, 0x00, 0x00, 0x00, 0x00, 0x00, 0x00, 0x00, 0x00, 0x00, 0x00, 0x00, 0x00],
   [0xFF, 0xFF, 0xFF, 0xFF, 0x80, 0x00, 0x00, 0x00, 0x00, 0x00, 0x00, 0x00, 0x00, 0x00, 0x00, 0x00],
   [0xFF, 0xFF, 0xFF, 0xFF, 0xC0, 0x00, 0x00, 0x00, 0x00, 0x00, 0x00, 0x00, 0x00, 0x00, 0x00, 0x00],
   [0xFF, 0xFF, 0xFF, 0xFF, 0xE0, 0x00, 0x00, 0x00, 0x00, 0x00, 0x00, 0x00, 0x00, 0x00, 0x00, 0x00],
   [0xFF, 0xFF, 0xFF, 0xFF, 0xF0, 0x00, 0x00, 0x00, 0x00, 0x00, 0x00, 0x00, 0x00, 0x00, 0x00, 0x00],
   [0xFF, 0xFF, 0xFF, 0xFF, 0xF8, 0x00, 0x00, 0x00, 0x00, 0x00, 0x00, 0x00, 0x00, 0x00, 0x00, 0x00],
   [0xFF, 0xFF, 0xFF, 0xFF, 0xFC, 0x00, 0x00, 0x00, 0x00, 0x00, 0x00, 0x00, 0x00, 0x00, 0x00, 0x00],
   [0xFF, 0xFF, 0xFF, 0xFF, 0xFE, 0x00, 0x00, 0x00, 0x00, 0x00, 0x00, 0x00, 0x00, 0x00, 0x00, 0x00],
   [0xFF, 0xFF, 0xFF, 0xFF, 0xFF, 0x00, 0x00, 0x00, 0x00, 0x00, 0x00, 0x00, 0x00, 0x00, 0x00, 0x00],
   [0xFF, 0xFF, 0xFF, 0xFF, 0xFF, 0x80, 0x00, 0x00, 0x00, 0x00, 0x00, 0x00, 0x00, 0x00, 0x00, 0x00],
   [0xFF, 0xFF, 0xFF, 0xFF, 0xFF, 0xC0, 0x00, 0x00, 0x00, 0x00, 0x00, 0x00, 0x00, 0x00, 0x00, 0x00],
   [0xFF, 0xFF, 0xFF, 0xFF, 0xFF, 0xE0, 0x00, 0x00, 0x00, 0x00, 0x00, 0x00, 0x00, 0x00, 0x00, 0x00],
   [0xFF, 0xFF, 0xFF, 0xFF, 0xFF, 0xF0, 0x00, 0x00, 0x00, 0x00, 0x00, 0x00, 0x00, 0x00, 0x00, 0x00],
   [0xFF, 0xFF, 0xFF, 0xFF, 0xFF, 0xF8, 0x00, 0x00, 0x00, 0x00, 0x00, 0x00, 0x00, 0x00, 0x00, 0x00],
   [0xFF, 0xFF, 0xFF, 0xFF, 0xFF, 0xFC, 0x00, 0x00, 0x00, 0x00, 0x00, 0x00, 0x00, 0x00, 0x00, 0x00],
   [0xFF, 0xFF, 0xFF, 0xFF, 0xFF, 0xFE, 0x00, 0x00, 0x00, 0x00, 0x00, 0x00, 0x00, 0x00, 0x00, 0x00],
   [0xFF, 0xFF, 0xFF, 0xFF, 0xFF, 0xFF, 0x00, 0x00, 0x00, 0x00, 0x00, 0x00, 0x00, 0x00, 0x00, 0x00],
   [0xFF, 0xFF, 0xFF, 0xFF, 0xFF, 0xFF, 0x80, 0x00, 0x00, 0x00, 0x00, 0x00, 0x00, 0x00, 0x00, 0x00],
   [0xFF, 0xFF, 0xFF, 0xFF, 0xFF, 0xFF, 0xC0, 0x00, 0x00, 0x00, 0x00, 0x00, 0x00, 0x00, 0x00, 0x00],
   [0xFF, 0xFF, 0xFF, 0xFF, 0xFF, 0xFF, 0xE0, 0x00, 0x00, 0x00, 0x00, 0x00, 0x00, 0x00, 0x00, 0x00],
   [0xFF, 0xFF, 0xFF, 0xFF, 0xFF, 0xFF, 0xF0, 0x00, 0x00, 0x00, 0x00, 0x00, 0x00, 0x00, 0x00, 0x00],
   [0xFF, 0xFF, 0xFF, 0xFF, 0xFF, 0xFF, 0xF8, 0x00, 0x00, 0x00, 0x00, 0x00, 0x00, 0x00, 0x00, 0x00],
   [0xFF, 0xFF, 0xFF, 0xFF, 0xFF, 0xFF, 0xFC, 0x00, 0x00, 0x00, 0x00, 0x00, 0x00, 0x00, 0x00, 0x00],
   [0xFF, 0xFF, 0xFF, 0xFF, 0xFF, 0xFF, 0xFE, 0x00, 0x00, 0x00, 0x00, 0x00, 0x00, 0x00, 0x00, 0x00],
   [0xFF, 0xFF, 0xFF, 0xFF, 0xFF, 0xFF, 0xFF, 0x00, 0x00, 0x00, 0x00, 0x00, 0x00, 0x00, 0x00, 0x00],
   [0xFF, 0xFF, 0xFF, 0xFF, 0xFF, 0xFF, 0xFF, 0x80, 0x00, 0x00, 0x00, 0x00, 0x00, 0x00, 0x00, 0x00],
   [0xFF, 0xFF, 0xFF, 0xFF, 0xFF, 0xFF, 0xFF, 0xC0, 0x00, 0x00, 0x00, 0x00, 0x00, 0x00, 0x00, 0x00],
   [0xFF, 0xFF, 0xFF, 0xFF, 0xFF, 0xFF, 0xFF, 0xE0, 0x00, 0x00, 0x00, 0x00, 0x00, 0x00, 0x00, 0x00],
   [0xFF, 0xFF, 0xFF, 0xFF, 0xFF, 0xFF, 0xFF, 0xF0, 0x00, 0x00, 0x00, 0x00, 0x00, 0x00, 0x00, 0x00],
   [0xFF, 0xFF, 0xFF, 0xFF, 0xFF, 0xFF, 0xFF, 0xF8, 0x00, 0x00, 0x00, 0x00, 0x00, 0x00, 0x00, 0x00],
   [0xFF, 0xFF, 0xFF, 0xFF, 0xFF, 0xFF, 0xFF, 0xFC, 0x00, 0x00, 0x00, 0x00, 0x00, 0x00, 0x00, 0x00],
   [0xFF, 0xFF, 0xFF, 0xFF, 0xFF, 0xFF, 0xFF, 0xFE, 0x00, 0x00, 0x00, 0x00, 0x00, 0x00, 0x00, 0x00],
   [0xFF, 0xFF, 0xFF, 0xFF, 0xFF, 0xFF, 0xFF, 0xFF, 0x00, 0x00, 0x00, 0x00, 0x00, 0x00, 0x00, 0x00],
   [0xFF, 0xFF, 0xFF, 0xFF, 0xFF, 0xFF, 0xFF, 0xFF, 0x80, 0x00, 0x00, 0x00, 0x00, 0x00, 0x00, 0x00],
   [0xFF, 0xFF, 0xFF, 0xFF, 0xFF, 0xFF, 0xFF, 0xFF, 0xC0, 0x00, 0x00, 0x00, 0x00, 0x00, 0x00, 0x00],
   [0xFF, 0xFF, 0xFF, 0xFF, 0xFF, 0xFF, 0xFF, 0xFF, 0xE0, 0x00, 0x00, 0x00, 0x00, 0x00, 0x00, 0x00],
   [0xFF, 0xFF, 0xFF, 0xFF, 0xFF, 0xFF, 0xFF, 0xFF, 0xF0, 0x00, 0x00, 0x00, 0x00, 0x00, 0x00, 0x00],
   [0xFF, 0xFF, 0xFF, 0xFF, 0xFF, 0xFF, 0xFF, 0xFF, 0xF8, 0x00, 0x00, 0x00, 0x00, 0x00, 0x00, 0x00],
   [0xFF, 0xFF, 0xFF, 0xFF, 0xFF, 0xFF, 0xFF, 0xFF, 0xFC, 0x00, 0x00, 0x00, 0x00, 0x00, 0x00, 0x00],
   [0xFF, 0xFF, 0xFF, 0xFF, 0xFF, 0xFF, 0xFF, 0xFF, 0xFE, 0x00, 0x00, 0x00, 0x00, 0x00, 0x00, 0x00],
   [0xFF, 0xFF, 0xFF, 0xFF, 0xFF, 0xFF, 0xFF, 0xFF, 0xFF, 0x00, 0x00, 0x00, 0x00, 0x00, 0x00, 0x00],
   [0xFF, 0xFF, 0xFF, 0xFF, 0xFF, 0xFF, 0xFF, 0xFF, 0xFF, 0x80, 0x00, 0x00, 0x00, 0x00, 0x00, 0x00],
   [0xFF, 0xFF, 0xFF, 0xFF, 0xFF, 0xFF, 0xFF, 0xFF, 0xFF, 0xC0, 0x00, 0x00, 0x00, 0x00, 0x00, 0x00],
   [0xFF, 0xFF, 0xFF, 0xFF, 0xFF, 0xFF, 0xFF, 0xFF, 0xFF, 0xE0, 0x00, 0x00, 0x00, 0x00, 0x00, 0x00],
   [0xFF, 0xFF, 0xFF, 0xFF, 0xFF, 0xFF, 0xFF, 0xFF, 0xFF, 0xF0, 0x00, 0x00, 0x00, 0x00, 0x00, 0x00],
   [0xFF, 0xFF, 0xFF, 0xFF, 0xFF, 0xFF, 0xFF, 0xFF, 0xFF, 0xF8, 0x00, 0x00, 0x00, 0x00, 0x00, 0x00],
   [0xFF, 0xFF, 0xFF, 0xFF, 0xFF, 0xFF, 0xFF, 0xFF, 0xFF, 0xFC, 0x00, 0x00, 0x00, 0x00, 0x00, 0x00],
   [0xFF, 0xFF, 0xFF, 0xFF, 0xFF, 0xFF, 0xFF, 0xFF, 0xFF, 0xFE, 0x00, 0x00, 0x00, 0x00, 0x00, 0x00],
   [0xFF, 0xFF, 0xFF, 0xFF, 0xFF, 0xFF, 0xFF, 0xFF, 0xFF, 0xFF, 0x00, 0x00, 0x00, 0x00, 0x00, 0x00],
   [0xFF, 0xFF, 0xFF, 0xFF, 0xFF, 0xFF, 0xFF, 0xFF, 0xFF, 0xFF, 0x80, 0x00, 0x00, 0x00, 0x00, 0x00],
   [0xFF, 0xFF, 0xFF, 0xFF, 0xFF, 0xFF, 0xFF, 0xFF, 0xFF, 0xFF, 0xC0, 0x00, 0x00, 0x00, 0x00, 0x00],
   [0xFF, 0xFF, 0xFF, 0xFF, 0xFF, 0xFF, 0xFF, 0xFF, 0xFF, 0xFF, 0xE0, 0x00, 0x00, 0x00, 0x00, 0x00],
   [0xFF, 0xFF, 0xFF, 0xFF, 0xFF, 0xFF, 0xFF, 0xFF, 0xFF, 0xFF, 0xF0, 0x00, 0x00, 0x00, 0x00, 0x00],
   [0xFF, 0xFF, 0xFF, 0xFF, 0xFF, 0xFF, 0xFF, 0xFF, 0xFF, 0xFF, 0xF8, 0x00, 0x00, 0x00, 0x00, 0x00],
   [0xFF, 0xFF, 0xFF, 0xFF, 0xFF, 0xFF, 0xFF, 0xFF, 0xFF, 0xFF, 0xFC, 0x00, 0x00, 0x00, 0x00, 0x00],
   [0xFF, 0xFF, 0xFF, 0xFF, 0xFF, 0xFF, 0xFF, 0xFF, 0xFF, 0xFF, 0xFE, 0x00, 0x00, 0x00, 0x00, 0x00],
   [0xFF, 0xFF, 0xFF, 0xFF, 0xFF, 0xFF, 0xFF, 0xFF, 0xFF, 0xFF, 0xFF, 0x00, 0x00, 0x00, 0x00, 0x00],
   [0xFF, 0xFF, 0xFF, 0xFF, 0xFF, 0xFF, 0xFF, 0xFF, 0xFF, 0xFF, 0xFF, 0x80, 0x00, 0x00, 0x00, 0x00],
   [0xFF, 0xFF, 0xFF, 0xFF, 0xFF, 0xFF, 0xFF, 0xFF, 0xFF, 0xFF, 0xFF, 0xC0, 0x00, 0x00, 0x00, 0x00],
   [0xFF, 0xFF, 0xFF, 0xFF, 0xFF, 0xFF, 0xFF, 0xFF, 0xFF, 0xFF, 0xFF, 0xE0, 0x00, 0x00, 0x00, 0x00],
   [0xFF, 0xFF, 0xFF, 0xFF, 0xFF, 0xFF, 0xFF, 0xFF, 0xFF, 0xFF, 0xFF, 0xF0, 0x00, 0x00, 0x00, 0x00],
   [0xFF, 0xFF, 0xFF, 0xFF, 0xFF, 0xFF, 0xFF, 0xFF, 0xFF, 0xFF, 0xFF, 0xF8, 0x00, 0x00, 0x00, 0x00],
   [0xFF, 0xFF, 0xFF, 0xFF, 0xFF, 0xFF, 0xFF, 0xFF, 0xFF, 0xFF, 0xFF, 0xFC, 0x00, 0x00, 0x00, 0x00],
   [0xFF, 0xFF, 0xFF, 0xFF, 0xFF, 0xFF, 0xFF, 0xFF, 0xFF, 0xFF, 0xFF, 0xFE, 0x00, 0x00, 0x00, 0x00],
   [0xFF, 0xFF, 0xFF, 0xFF, 0xFF, 0xFF, 0xFF, 0xFF, 0xFF, 0xFF, 0xFF, 0xFF, 0x00, 0x00, 0x00, 0x00],
   [0xFF, 0xFF, 0xFF, 0xFF, 0xFF, 0xFF, 0xFF, 0xFF, 0xFF, 0xFF, 0xFF, 0xFF, 0x80, 0x00, 0x00, 0x00],
   [0xFF, 0xFF, 0xFF, 0xFF, 0xFF, 0xFF, 0xFF, 0xFF, 0xFF, 0xFF, 0xFF, 0xFF, 0xC0, 0x00, 0x00, 0x00],
   [0xFF, 0xFF, 0xFF, 0xFF, 0xFF, 0xFF, 0xFF, 0xFF, 0xFF, 0xFF, 0xFF, 0xFF, 0xE0, 0x00, 0x00, 0x00],
   [0xFF, 0xFF, 0xFF, 0xFF, 0xFF, 0xFF, 0xFF, 0xFF, 0xFF, 0xFF, 0xFF, 0xFF, 0xF0, 0x00, 0x00, 0x00],
   [0xFF, 0xFF, 0xFF, 0xFF, 0xFF, 0xFF, 0xFF, 0xFF, 0xFF, 0xFF, 0xFF, 0xFF, 0xF8, 0x00, 0x00, 0x00],
   [0xFF, 0xFF, 0xFF, 0xFF, 0xFF, 0xFF, 0xFF, 0xFF, 0xFF, 0xFF, 0xFF, 0xFF, 0xFC, 0x00, 0x00, 0x00],
   [0xFF, 0xFF, 0xFF, 0xFF, 0xFF, 0xFF, 0xFF, 0xFF, 0xFF, 0xFF, 0xFF, 0xFF, 0xFE, 0x00, 0x00, 0x00],
   [0xFF, 0xFF, 0xFF, 0xFF, 0xFF, 0xFF, 0xFF, 0xFF, 0xFF, 0xFF, 0xFF, 0xFF, 0xFF, 0x00, 0x00, 0x00],
   [0xFF, 0xFF, 0xFF, 0xFF, 0xFF, 0xFF, 0xFF, 0xFF, 0xFF, 0xFF, 0xFF, 0xFF, 0xFF, 0x80, 0x00, 0x00],
   [0xFF, 0xFF, 0xFF, 0xFF, 0xFF, 0xFF, 0xFF, 0xFF, 0xFF, 0xFF, 0xFF, 0xFF, 0xFF, 0xC0, 0x00, 0x00],
   [0xFF, 0xFF, 0xFF, 0xFF, 0xFF, 0xFF, 0xFF, 0xFF, 0xFF, 0xFF, 0xFF, 0xFF, 0xFF, 0xE0, 0x00, 0x00],
   [0xFF, 0xFF, 0xFF, 0xFF, 0xFF, 0xFF, 0xFF, 0xFF, 0xFF, 0xFF, 0xFF, 0xFF, 0xFF, 0xF0, 0x00, 0x00],
   [0xFF, 0xFF, 0xFF, 0xFF, 0xFF, 0xFF, 0xFF, 0xFF, 0xFF, 0xFF, 0xFF, 0xFF, 0xFF, 0xF8, 0x00, 0x00],
   [0xFF, 0xFF, 0xFF, 0xFF, 0xFF, 0xFF, 0xFF, 0xFF, 0xFF, 0xFF, 0xFF, 0xFF, 0xFF, 0xFC, 0x00, 0x00],
   [0xFF, 0xFF, 0xFF, 0xFF, 0xFF, 0xFF, 0xFF, 0xFF, 0xFF, 0xFF, 0xFF, 0xFF, 0xFF, 0xFE, 0x00, 0x00],
   [0xFF, 0xFF, 0xFF, 0xFF, 0xFF, 0xFF, 0xFF, 0xFF, 0xFF, 0xFF, 0xFF, 0xFF, 0xFF, 0xFF, 0x00, 0x00],
   [0xFF, 0xFF, 0xFF, 0xFF, 0xFF, 0xFF, 0xFF, 0xFF, 0xFF, 0xFF, 0xFF, 0xFF, 0xFF, 0xFF, 0x80, 0x00],
   [0xFF, 0xFF, 0xFF, 0xFF, 0xFF, 0xFF, 0xFF, 0xFF, 0xFF, 0xFF, 0xFF, 0xFF, 0xFF, 0xFF, 0xC0, 0x00],
   [0xFF, 0xFF, 0xFF, 0xFF, 0xFF, 0xFF, 0xFF, 0xFF, 0xFF, 0xFF, 0xFF, 0xFF, 0xFF, 0xFF, 0xE0, 0x00],
   [0xFF, 0xFF, 0xFF, 0xFF, 0xFF, 0xFF, 0xFF, 0xFF, 0xFF, 0xFF, 0xFF, 0xFF, 0xFF, 0xFF, 0xF0, 0x00],
   [0xFF, 0xFF, 0xFF, 0xFF, 0xFF, 0xFF, 0xFF, 0xFF, 0xFF, 0xFF, 0xFF, 0xFF, 0xFF, 0xFF, 0xF8, 0x00],
   [0xFF, 0xFF, 0xFF, 0xFF, 0xFF, 0xFF, 0xFF, 0xFF, 0xFF, 0xFF, 0xFF, 0xFF, 0xFF, 0xFF, 0xFC, 0x00],
   [0xFF, 0xFF, 0xFF, 0xFF, 0xFF, 0xFF, 0xFF, 0xFF, 0xFF, 0xFF, 0xFF, 0xFF, 0xFF, 0xFF, 0xFE, 0x00],
   [0xFF, 0xFF, 0xFF, 0xFF, 0xFF, 0xFF, 0xFF, 0xFF, 0xFF, 0xFF, 0xFF, 0xFF, 0xFF, 0xFF, 0xFF, 0x00],
   [0xFF, 0xFF, 0xFF, 0xFF, 0xFF, 0xFF, 0xFF, 0xFF, 0xFF, 0xFF, 0xFF, 0xFF, 0xFF, 0xFF, 0xFF, 0x80],
   [0xFF, 0xFF, 0xFF, 0xFF, 0xFF, 0xFF, 0xFF, 0xFF, 0xFF, 0xFF, 0xFF, 0xFF, 0xFF, 0xFF, 0xFF, 0xC0],
   [0xFF, 0xFF, 0xFF, 0xFF, 0xFF, 0xFF, 0xFF, 0xFF, 0xFF, 0xFF, 0xFF, 0xFF, 0xFF, 0xFF, 0xFF, 0xE0],
   [0xFF, 0xFF, 0xFF, 0xFF, 0xFF, 0xFF, 0xFF, 0xFF, 0xFF, 0xFF, 0xFF, 0xFF, 0xFF, 0xFF, 0xFF, 0xF0],
   [0xFF, 0xFF, 0xFF, 0xFF, 0xFF, 0xFF, 0xFF, 0xFF, 0xFF, 0xFF, 0xFF, 0xFF, 0xFF, 0xFF, 0xFF, 0xF8],
   [0xFF, 0xFF, 0xFF, 0xFF, 0xFF, 0xFF, 0xFF, 0xFF, 0xFF, 0xFF, 0xFF, 0xFF, 0xFF, 0xFF, 0xFF, 0xFC],
   [0xFF, 0xFF, 0xFF, 0xFF, 0xFF, 0xFF, 0xFF, 0xFF, 0xFF, 0xFF, 0xFF, 0xFF, 0xFF, 0xFF, 0xFF, 0xFE],
   [0xFF, 0xFF, 0xFF, 0xFF, 0xFF, 0xFF, 0xFF, 0xFF, 0xFF, 0xFF, 0xFF, 0xFF, 0xFF, 0xFF, 0xFF, 0xFF]
  ]"

definition fetchMask :: "nat \<Rightarrow> failure + ByteArray16" where
  "fetchMask numBits =
     (let bits = bitCount in
      if numBits > bits then Inl (IPAddressFormatException ''IPv6 addresses are 128 bits.'')
      else Inr (masks ! numBits))"

section \<open>Construction\<close>

definition IPAddressV6_default :: IPAddressV6 where
  \<comment> \<open>Modelled from the spec: the default constructor's storage initialisation is in the
      class header, which is not among the sources; the default address is the zero address.\<close>
  "IPAddressV6_default = \<lparr>addr = replicate 16 0, scope = scope_default\<rparr>"

definition IPAddressV6_ByteArray16 :: "ByteArray16 \<Rightarrow> IPAddressV6" where
  "IPAddressV6_ByteArray16 src = \<lparr>addr = src, scope = scope_default\<rparr>"

text \<open>
  The storage constructor writes bytes 0 to 7 with \<open>memcpy\<close> and then assigns bytes 8 to
  15 one by one; the buffer it starts from is indeterminate and is taken as zeros here,
  every byte of it being overwritten.
\<close>

definition AddressStorage_MacAddress :: "MacAddress \<Rightarrow> ByteArray16" where
  "AddressStorage_MacAddress mac =
     (let macBytes = mac_bytes mac;
          b = [0xfe, 0x80, 0x00, 0x00, 0x00, 0x00, 0x00, 0x00] @ drop 8 (replicate 16 0);
          b = b[8 := (macBytes ! 0) XOR 0x02];
          b = b[9 := macBytes ! 1];
          b = b[10 := macBytes ! 2];
          b = b[11 := 0xff];
          b = b[12 := 0xfe];
          b = b[13 := macBytes ! 3];
          b = b[14 := macBytes ! 4];
          b = b[15 := macBytes ! 5]
      in b)"

definition IPAddressV6_LinkLocal :: "MacAddress \<Rightarrow> IPAddressV6" where
  "IPAddressV6_LinkLocal mac = \<lparr>addr = AddressStorage_MacAddress mac, scope = scope_default\<rparr>"

definition setFromBinary :: "IPAddressV6 \<Rightarrow> ByteRange \<Rightarrow> failure + IPAddressV6" where
  "setFromBinary this bytes =
     (if length bytes \<noteq> 16 then
        Inl (IPAddressFormatException
               (''Invalid IPv6 binary data: length must '' @ ''be 16 bytes, got '' @
                to_string (length bytes)))
      else Inr (this\<lparr>addr := take 16 bytes, scope := 0\<rparr>))"

definition fromBinary :: "ByteRange \<Rightarrow> failure + IPAddressV6" where
  \<comment> \<open>Modelled from the spec: \<open>fromBinary\<close> is defined in the class header, which is
      not among the sources; constructing from a raw buffer is \<open>setFromBinary\<close> on a
      fresh address.\<close>
  "fromBinary bytes = setFromBinary IPAddressV6_default bytes"

section \<open>Word unpacking and classification\<close>

definition unpack :: "8 word \<Rightarrow> 8 word \<Rightarrow> 16 word" where
  "unpack lobyte hibyte = push_bit 8 (ucast hibyte) OR ucast lobyte"

function unpackInto_loop ::
  "8 word list \<Rightarrow> 16 word list \<Rightarrow> nat \<Rightarrow> nat \<Rightarrow> nat \<Rightarrow> nat \<Rightarrow> 16 word list" where
  "unpackInto_loop src dest count i hi lo =
     (if i < count then
        unpackInto_loop src (dest[i := unpack (src ! hi) (src ! lo)]) count (i + 1) (hi + 2) (lo + 2)
      else dest)"
  by pat_completeness auto
termination
  by (relation "measure (\<lambda>(src, dest, count, i, hi, lo). count - i)") auto

declare unpackInto_loop.simps [simp del]

definition unpackInto :: "8 word list \<Rightarrow> 16 word list \<Rightarrow> nat \<Rightarrow> 16 word list" where
  "unpackInto src dest count = unpackInto_loop src dest count 0 1 0"

definition type :: "IPAddressV6 \<Rightarrow> Type" where
  "type a =
     (let ints = unpackInto (addr a) [0, 0] 2 in
      if push_bit 16 (ucast (ints ! 0) :: 32 word) OR ucast (ints ! 1) = PREFIX_TEREDO then TEREDO
      else if (ucast (ints ! 0) :: 32 word) = PREFIX_6TO4 then T6TO4
      else NORMAL)"

definition is6To4 :: "IPAddressV6 \<Rightarrow> bool" where
  \<comment> \<open>Modelled from the spec: \<open>is6To4\<close> is defined in the class header, which is not
      among the sources; it holds when the classification is the 6to4 one.\<close>
  "is6To4 a = (type a = T6TO4)"

definition str :: "collaborators \<Rightarrow> IPAddressV6 \<Rightarrow> failure + string" where
  "str c a =
     (case getnameinfo c (addr a) (scope a) of
        Some ip \<Rightarrow> Inr ip
      | None \<Rightarrow>
          Inl (IPAddressFormatException
                 (''Invalid address with hex '' @ [CHR 0x27] @ toHex c (addr a) 16 @ [CHR 0x27])))"

definition getIPv4For6To4 :: "collaborators \<Rightarrow> IPAddressV6 \<Rightarrow> failure + IPAddressV4" where
  "getIPv4For6To4 c a =
     (if \<not> is6To4 a then
        (case str c a of
           Inl e \<Rightarrow> Inl e
         | Inr s \<Rightarrow>
             Inl (TypeError (''Invalid IP '' @ [CHR 0x27] @ s @ [CHR 0x27] @ '': not a 6to4 address'')))
      else
        (let ints = unpackInto (addr a) [0, 0, 0, 0] 4;
             b0 = ucast (drop_bit 8 ((ints ! 1) AND 0xFF00));
             b1 = ucast ((ints ! 1) AND 0x00FF);
             b2 = ucast (drop_bit 8 ((ints ! 2) AND 0xFF00));
             b3 = ucast ((ints ! 2) AND 0x00FF)
         in Inr (IPAddressV4 b0 b1 b2 b3)))"

section \<open>IPv4-mapped addresses and hashing\<close>

function isIPv4Mapped_loop :: "8 word list \<Rightarrow> nat \<Rightarrow> bool" where
  "isIPv4Mapped_loop by i =
     (if i < 10 then (if by ! i \<noteq> 0x00 then False else isIPv4Mapped_loop by (i + 1))
      else True)"
  by pat_completeness auto
termination
  by (relation "measure (\<lambda>(by, i). 10 - i)") auto

declare isIPv4Mapped_loop.simps [simp del]

definition isIPv4Mapped :: "IPAddressV6 \<Rightarrow> bool" where
  "isIPv4Mapped a =
     (let by = addr a in
      if \<not> isIPv4Mapped_loop by 0 then False
      else if by ! 10 = 0xff \<and> by ! 11 = 0xff then True
      else False)"

definition createIPv4 :: "IPAddressV6 \<Rightarrow> failure + IPAddressV4" where
  "createIPv4 a =
     (if \<not> isIPv4Mapped a then Inl (IPAddressFormatException ''addr is not v4-to-v6-mapped'')
      else (let by = addr a in Inr (mkAddress4 (drop 12 by))))"

definition IPAddress_createIPv4 :: "IPAddressV6 \<Rightarrow> failure + IPAddressV4" where
  \<comment> \<open>Modelled from the spec: \<open>IPAddress::createIPv4\<close> belongs to the address-family
      wrapper, which is not among the sources; the wrapper dispatches between the two
      families, so on a wrapped IPv6 address it is that address's \<open>createIPv4\<close>.\<close>
  "IPAddress_createIPv4 a = createIPv4 a"

definition hash :: "collaborators \<Rightarrow> IPAddressV6 \<Rightarrow> failure + 64 word" where
  "hash c a =
     (if isIPv4Mapped a then
        (case IPAddress_createIPv4 a of
           Inl e \<Rightarrow> Inl e
         | Inr v4 \<Rightarrow> Inr (hashV4 c v4))
      else
        (let seed = AF_INET6 c;
             (hash1, hash2) = Hash128 c (addr a) 16 0 0
         in Inr (hash_combine c seed hash1 hash2)))"

section \<open>Multicast and masking\<close>

definition isMulticast :: "IPAddressV6 \<Rightarrow> bool" where
  "isMulticast a = (addr a ! 0 = 0xff)"

text \<open>
  \<open>DCHECK\<close> aborts in a debug build and is compiled out otherwise; \<open>dcheck\<close> says
  which build runs.
\<close>

definition getSolicitedNodeAddress :: "bool \<Rightarrow> IPAddressV6 \<Rightarrow> failure + IPAddressV6" where
  "getSolicitedNodeAddress dcheck a =
     (if dcheck \<and> \<not> (\<not> isMulticast a) then Inl DCheckFailure
      else
        (let bytes = [0xff, 0x02, 0x00, 0x00, 0x00, 0x00, 0x00, 0x00,
                      0x00, 0x00, 0x00, 0x01, 0xff, 0x00, 0x00, 0x00];
             bytes = bytes[13 := addr a ! 13];
             bytes = bytes[14 := addr a ! 14];
             bytes = bytes[15 := addr a ! 15]
         in fromBinary (take 16 bytes)))"

definition mask_v6 :: "IPAddressV6 \<Rightarrow> nat \<Rightarrow> failure + IPAddressV6" where
  "mask_v6 a numBits =
     (let bits = bitCount in
      if numBits > bits then
        Inl (IPAddressFormatException
               (''numBits('' @ to_string numBits @ '') > bitCount('' @ to_string bits @ '')''))
      else
        (case fetchMask numBits of
           Inl e \<Rightarrow> Inl e
         | Inr m \<Rightarrow> (let ba = Bytes_mask m (addr a) in Inr (IPAddressV6_ByteArray16 ba))))"

section \<open>Two platforms for concrete evaluation\<close>

text \<open>
  The collaborators are parameters of the model. For evaluating the functions on concrete
  addresses: a lowercase hex rendering of a buffer, a platform whose \<open>getnameinfo\<close>
  answers with a given text, and a platform whose \<open>getnameinfo\<close> reports an error.
\<close>

definition hex_byte :: "8 word \<Rightarrow> string" where
  "hex_byte b = [''0123456789abcdef'' ! (unat b div 16), ''0123456789abcdef'' ! (unat b mod 16)]"

definition hex_of_bytes :: "8 word list \<Rightarrow> nat \<Rightarrow> string" where
  "hex_of_bytes src len = concat (map hex_byte (take len src))"

definition rendering_platform :: "string \<Rightarrow> collaborators" where
  "rendering_platform ip =
     \<lparr>getnameinfo = (\<lambda>b s. Some ip), toHex = hex_of_bytes,
      hashV4 = (\<lambda>v. case v of IPAddressV4 o0 o1 o2 o3 \<Rightarrow> ucast o0 + ucast o3),
      Hash128 = (\<lambda>b n h1 h2. (h1, h2)), hash_combine = (\<lambda>x y z. x + y + z),
      AF_INET6 = 10\<rparr>"

definition failing_platform :: collaborators where
  "failing_platform =
     \<lparr>getnameinfo = (\<lambda>b s. None), toHex = hex_of_bytes,
      hashV4 = (\<lambda>v. case v of IPAddressV4 o0 o1 o2 o3 \<Rightarrow> ucast o0 + ucast o3),
      Hash128 = (\<lambda>b n h1 h2. (h1, h2)), hash_combine = (\<lambda>x y z. x + y + z),
      AF_INET6 = 10\<rparr>"

section \<open>The mask table as the specification words it\<close>

text \<open>
  Following the specification, not the source: the byte whose top \<open>r\<close> bits are set, and
  the mask of prefix length \<open>n\<close> as full bytes, one partial byte when \<open>n\<close> is not a
  multiple of 8, and zero bytes for the rest.
\<close>

definition top_bits :: "nat \<Rightarrow> 8 word" where
  "top_bits r = of_nat (256 - 2 ^ (8 - r))"

definition spec_mask :: "nat \<Rightarrow> 8 word list" where
  "spec_mask n =
     replicate (n div 8) 0xFF @ (if n mod 8 = 0 then [] else [top_bits (n mod 8)]) @
     replicate (16 - (n + 7) div 8) 0x00"

section \<open>The table agrees with the specification\<close>

lemma masks_eq: "masks = map spec_mask [0..<129]"
  by code_simp

lemma masks_nth: "n \<le> 128 \<Longrightarrow> masks ! n = spec_mask n"
  by (simp add: masks_eq)

lemma ceil8: "((n::nat) + 7) div 8 = n div 8 + (if n mod 8 = 0 then 0 else 1)"
  by (cases "n mod 8 = 0") (simp_all, arith+)

lemma ceil8_le: "(n::nat) \<le> 128 \<Longrightarrow> (n + 7) div 8 \<le> 16"
  by simp

lemma length_spec_mask: "n \<le> 128 \<Longrightarrow> length (spec_mask n) = 16"
  using ceil8 [of n] ceil8_le [of n] by (simp add: spec_mask_def del: div_le_dividend)

lemma top_bits_table:
  "\<forall>r\<in>set [0..<8]. \<forall>j\<in>set [0..<8]. bit (top_bits r) (7 - j) = (j < r)"
  by code_simp

lemma bit_top_bits:
  assumes "r < 8" "j < 8"
  shows "bit (top_bits r) (7 - j) = (j < r)"
  using top_bits_table assms by simp

lemma ff_table: "\<forall>j\<in>set [0..<8]. bit (0xFF :: 8 word) (7 - j)"
  by code_simp

lemma spec_mask_nth:
  assumes "n \<le> 128" "k < 16"
  shows "spec_mask n ! k =
     (if k < n div 8 then 0xFF else if k = n div 8 \<and> n mod 8 \<noteq> 0 then top_bits (n mod 8) else 0)"
proof (cases "k < n div 8")
  case True
  then show ?thesis by (simp add: spec_mask_def nth_append)
next
  case False
  note nk = this
  show ?thesis
  proof (cases "n mod 8 = 0")
    case True
    have "k - n div 8 < 16 - (n + 7) div 8" using nk True assms ceil8 [of n] by simp
    then show ?thesis using nk True by (simp add: spec_mask_def nth_append)
  next
    case False
    show ?thesis
    proof (cases "k = n div 8")
      case True
      then show ?thesis using False by (simp add: spec_mask_def nth_append)
    next
      case k: False
      have "k - n div 8 - 1 < 16 - (n + 7) div 8" using nk k False assms ceil8 [of n] by simp
      moreover have "k - n div 8 \<noteq> 0" using nk k by simp
      ultimately show ?thesis using nk k False
        by (simp add: spec_mask_def nth_append nth_Cons')
    qed
  qed
qed

lemma spec_mask_bit:
  assumes "n \<le> 128" "i < 128"
  shows "bit (spec_mask n ! (i div 8)) (7 - i mod 8) = (i < n)"
proof -
  have k: "i div 8 < 16" using assms by simp
  have j: "i mod 8 < 8" by simp
  have di: "i = 8 * (i div 8) + i mod 8" by simp
  have dn: "n = 8 * (n div 8) + n mod 8" by simp
  have r: "n mod 8 < 8" by simp
  consider "i div 8 < n div 8" | "i div 8 = n div 8" | "i div 8 > n div 8" by linarith
  then show ?thesis
  proof cases
    case 1
    then have "i < n" using di dn j by linarith
    moreover have "bit (0xFF :: 8 word) (7 - i mod 8)"
      using ff_table j by simp
    ultimately show ?thesis using 1 by (simp add: spec_mask_nth [OF assms(1) k])
  next
    case 2
    have lt: "(i < n) = (i mod 8 < n mod 8)" using 2 di dn by linarith
    have nth: "spec_mask n ! (i div 8) = (if n mod 8 \<noteq> 0 then top_bits (n mod 8) else 0)"
      unfolding spec_mask_nth [OF assms(1) k] using 2 by simp
    show ?thesis
    proof (cases "n mod 8 = 0")
      case True
      then show ?thesis by (simp add: nth lt)
    next
      case False
      then show ?thesis using bit_top_bits [OF r j] by (simp add: nth lt)
    qed
  next
    case 3
    then have "\<not> i < n" using di dn r by linarith
    then show ?thesis using 3 by (simp add: spec_mask_nth [OF assms(1) k])
  qed
qed

text \<open>
  C1. For every prefix length \<open>n\<close> from 0 to 128, \<open>fetchMask n\<close> returns a mask of 16
  bytes whose bit \<open>i\<close>, counted from the most significant bit of byte 0, is one exactly
  when \<open>i < n\<close>; it is the mask of \<open>n div 8\<close> bytes 0xFF, then one byte with the top
  \<open>n mod 8\<close> bits set when \<open>n mod 8\<close> is not zero, then zero bytes.
\<close>

theorem fetchMask_table:
  "n \<le> 128 \<Longrightarrow>
     (\<exists>m. fetchMask n = Inr m \<and> length m = 16 \<and>
          (\<forall>i<128. bit (m ! (i div 8)) (7 - i mod 8) = (i < n)) \<and>
          m = spec_mask n)"
  by (simp add: fetchMask_def bitCount_def masks_nth length_spec_mask spec_mask_bit)

theorem fetchMask_table_witness:
  "(10::nat) \<le> 128 \<and>
   (\<exists>m. fetchMask 10 = Inr m \<and> length m = 16 \<and>
        (\<forall>i<128. bit (m ! (i div 8)) (7 - i mod 8) = (i < 10)) \<and>
        m = [0xFF, 0xC0, 0, 0, 0, 0, 0, 0, 0, 0, 0, 0, 0, 0, 0, 0])"
proof -
  have "spec_mask 10 = [0xFF, 0xC0, 0, 0, 0, 0, 0, 0, 0, 0, 0, 0, 0, 0, 0, 0]"
    by code_simp
  then show ?thesis using fetchMask_table [of 10] by simp
qed

section \<open>Masking\<close>

lemma to_string_128: "to_string 128 = ''128''"
  by code_simp

lemma fetchMask_ok: "numBits \<le> 128 \<Longrightarrow> fetchMask numBits = Inr (masks ! numBits)"
  by (simp add: fetchMask_def bitCount_def)

lemma length_masks_nth: "numBits \<le> 128 \<Longrightarrow> length (masks ! numBits) = 16"
  by (simp add: masks_nth length_spec_mask)

lemma map2_and_commute: "map2 (AND) xs ys = map2 (AND) ys (xs :: 8 word list)"
proof (induction xs arbitrary: ys)
  case Nil
  then show ?case by simp
next
  case (Cons x xs)
  then show ?case by (cases ys) (simp_all add: and.commute)
qed

lemma fetchMask_32:
  "fetchMask 32 = Inr [0xFF, 0xFF, 0xFF, 0xFF, 0, 0, 0, 0, 0, 0, 0, 0, 0, 0, 0, 0]"
proof -
  have "spec_mask 32 = [0xFF, 0xFF, 0xFF, 0xFF, 0, 0, 0, 0, 0, 0, 0, 0, 0, 0, 0, 0]"
    by code_simp
  then show ?thesis by (simp add: fetchMask_ok masks_nth)
qed

text \<open>
  C2. For every address \<open>a\<close> and every \<open>numBits\<close>, \<open>a.mask(numBits)\<close> fails exactly
  when \<open>numBits > 128\<close>, with the format exception that reports the prefix length; when
  \<open>numBits \<le> 128\<close> it returns the address whose 16-byte buffer is the byte-wise AND of
  the buffer of \<open>a\<close> with \<open>fetchMask numBits\<close>.
\<close>

theorem mask_v6_result:
  assumes "length (addr a) = 16"
  shows "((\<exists>e. mask_v6 a numBits = Inl e) = (numBits > 128)) \<and>
   (numBits > 128 \<longrightarrow>
      mask_v6 a numBits =
        Inl (IPAddressFormatException (''numBits('' @ to_string numBits @ '') > bitCount(128)''))) \<and>
   (numBits \<le> 128 \<longrightarrow>
      (\<exists>m r. fetchMask numBits = Inr m \<and> mask_v6 a numBits = Inr r \<and>
             addr r = map2 (AND) (addr a) m \<and> length (addr r) = 16 \<and>
             (\<forall>i<16. addr r ! i = (addr a ! i) AND (m ! i))))"
proof (cases "numBits > 128")
  case True
  then show ?thesis by (simp add: mask_v6_def bitCount_def to_string_128)
next
  case False
  then have le: "numBits \<le> 128" by simp
  have r: "mask_v6 a numBits = Inr (IPAddressV6_ByteArray16 (map2 (AND) (addr a) (masks ! numBits)))"
    using le by (simp add: mask_v6_def bitCount_def fetchMask_ok Bytes_mask_def map2_and_commute)
  show ?thesis using le assms
    by (simp add: r fetchMask_ok IPAddressV6_ByteArray16_def length_masks_nth)
qed

theorem mask_v6_result_witness:
  "length (addr \<lparr>addr = [0x20, 0x01, 0x0d, 0xb8, 0, 0, 0, 0, 0, 0, 0, 0, 0, 0, 0, 1], scope = 5\<rparr>) = 16 \<and>
   mask_v6 \<lparr>addr = [0x20, 0x01, 0x0d, 0xb8, 0, 0, 0, 0, 0, 0, 0, 0, 0, 0, 0, 1], scope = 5\<rparr> 200 =
     Inl (IPAddressFormatException ''numBits(200) > bitCount(128)'') \<and>
   (\<exists>r. mask_v6 \<lparr>addr = [0x20, 0x01, 0x0d, 0xb8, 0, 0, 0, 0, 0, 0, 0, 0, 0, 0, 0, 1], scope = 5\<rparr> 32 = Inr r \<and>
        addr r = [0x20, 0x01, 0x0d, 0xb8, 0, 0, 0, 0, 0, 0, 0, 0, 0, 0, 0, 0])"
proof -
  let ?a = "\<lparr>addr = [0x20, 0x01, 0x0d, 0xb8, 0, 0, 0, 0, 0, 0, 0, 0, 0, 0, 0, 1], scope = 5\<rparr>"
  have len: "length (addr ?a) = 16" by simp
  have s: "to_string 200 = ''200''" by code_simp
  have e: "mask_v6 ?a 200 = Inl (IPAddressFormatException ''numBits(200) > bitCount(128)'')"
    using mask_v6_result [OF len, of 200] by (simp add: s)
  obtain m r where fm: "fetchMask 32 = Inr m" and r: "mask_v6 ?a 32 = Inr r"
    and ar: "addr r = map2 (AND) (addr ?a) m"
    using mask_v6_result [OF len, of 32] by auto
  have m: "m = [0xFF, 0xFF, 0xFF, 0xFF, 0, 0, 0, 0, 0, 0, 0, 0, 0, 0, 0, 0]"
    using fm by (simp add: fetchMask_32)
  have "addr r = [0x20, 0x01, 0x0d, 0xb8, 0, 0, 0, 0, 0, 0, 0, 0, 0, 0, 0, 0]"
    by (simp add: ar m)
  then show ?thesis using len e r by simp
qed

text \<open>
  C10. For every address \<open>a\<close> and every \<open>numBits \<le> 128\<close>, the address returned by
  \<open>a.mask(numBits)\<close> has scope id 0, whatever the scope id of \<open>a\<close>: the result is built
  from the masked buffer alone.
\<close>

theorem mask_v6_scope:
  "numBits \<le> 128 \<Longrightarrow> (\<exists>r. mask_v6 a numBits = Inr r \<and> scope r = 0)"
  by (simp add: mask_v6_def bitCount_def fetchMask_ok IPAddressV6_ByteArray16_def scope_default_def)

theorem mask_v6_scope_witness:
  "(32::nat) \<le> 128 \<and> scope \<lparr>addr = [0x20, 0x01, 0x0d, 0xb8, 0, 0, 0, 0, 0, 0, 0, 0, 0, 0, 0, 1], scope = 5\<rparr> = 5 \<and>
   (\<exists>r. mask_v6 \<lparr>addr = [0x20, 0x01, 0x0d, 0xb8, 0, 0, 0, 0, 0, 0, 0, 0, 0, 0, 0, 1], scope = 5\<rparr> 32 = Inr r \<and> scope r = 0)"
  using mask_v6_scope [of 32 "\<lparr>addr = [0x20, 0x01, 0x0d, 0xb8, 0, 0, 0, 0, 0, 0, 0, 0, 0, 0, 0, 1], scope = 5\<rparr>"] by simp

section \<open>Construction from a buffer and from a MAC address\<close>

text \<open>
  C8. For every byte sequence \<open>b\<close>, constructing an address from \<open>b\<close> as a binary buffer
  succeeds exactly when \<open>b\<close> has 16 bytes and fails with the format exception otherwise;
  on success the buffer of the address is \<open>b\<close> and its scope id is 0. This holds for
  \<open>setFromBinary\<close> on any receiver and for \<open>fromBinary\<close>.
\<close>

theorem setFromBinary_result:
  "((\<exists>r. setFromBinary this b = Inr r) = (length b = 16)) \<and>
   ((\<exists>r. fromBinary b = Inr r) = (length b = 16)) \<and>
   (length b \<noteq> 16 \<longrightarrow>
      setFromBinary this b =
        Inl (IPAddressFormatException
               (''Invalid IPv6 binary data: length must be 16 bytes, got '' @ to_string (length b))) \<and>
      fromBinary b = setFromBinary this b) \<and>
   (length b = 16 \<longrightarrow>
      (\<exists>r. setFromBinary this b = Inr r \<and> addr r = b \<and> scope r = 0) \<and>
      (\<exists>r. fromBinary b = Inr r \<and> addr r = b \<and> scope r = 0))"
  by (simp add: setFromBinary_def fromBinary_def)

theorem setFromBinary_result_witness:
  "length [1, 2, 3 :: 8 word] \<noteq> 16 \<and>
   fromBinary [1, 2, 3] =
     Inl (IPAddressFormatException ''Invalid IPv6 binary data: length must be 16 bytes, got 3'') \<and>
   length [0x20, 0x01, 0x0d, 0xb8, 0, 0, 0, 0, 0, 0, 0, 0, 0, 0, 0, 1 :: 8 word] = 16 \<and>
   (\<exists>r. fromBinary [0x20, 0x01, 0x0d, 0xb8, 0, 0, 0, 0, 0, 0, 0, 0, 0, 0, 0, 1] = Inr r \<and>
        addr r = [0x20, 0x01, 0x0d, 0xb8, 0, 0, 0, 0, 0, 0, 0, 0, 0, 0, 0, 1] \<and> scope r = 0)"
proof -
  have s: "to_string (Suc (Suc (Suc 0))) = ''3''" by (simp add: to_string.simps)
  show ?thesis
    using setFromBinary_result [of IPAddressV6_default "[1, 2, 3]"]
      setFromBinary_result
        [of IPAddressV6_default "[0x20, 0x01, 0x0d, 0xb8, 0, 0, 0, 0, 0, 0, 0, 0, 0, 0, 0, 1]"]
    by (simp add: s)
qed

text \<open>
  C6. For every MAC address with bytes \<open>m0 \<dots> m5\<close>, the link-local constructor gives
  the address with bytes 0 to 7 equal to fe 80 00 00 00 00 00 00, byte 8 equal to
  \<open>m0 XOR 0x02\<close>, bytes 9 and 10 equal to \<open>m1\<close> and \<open>m2\<close>, bytes 11 and 12 equal to
  ff fe, and bytes 13 to 15 equal to \<open>m3\<close>, \<open>m4\<close>, \<open>m5\<close>; the MAC address
  00:11:22:33:44:55 gives fe80::0211:22ff:fe33:4455.
\<close>

theorem link_local_bytes:
  "addr (IPAddressV6_LinkLocal (MacAddress m0 m1 m2 m3 m4 m5)) =
     [0xfe, 0x80, 0x00, 0x00, 0x00, 0x00, 0x00, 0x00,
      m0 XOR 0x02, m1, m2, 0xff, 0xfe, m3, m4, m5] \<and>
   addr (IPAddressV6_LinkLocal (MacAddress 0x00 0x11 0x22 0x33 0x44 0x55)) =
     [0xfe, 0x80, 0x00, 0x00, 0x00, 0x00, 0x00, 0x00,
      0x02, 0x11, 0x22, 0xff, 0xfe, 0x33, 0x44, 0x55]"
  by (simp add: IPAddressV6_LinkLocal_def AddressStorage_MacAddress_def Let_def eval_nat_numeral)

section \<open>Solicited-node address\<close>

text \<open>
  C7. For every address \<open>a\<close> that is not multicast, \<open>getSolicitedNodeAddress\<close> returns
  the address whose bytes 0 to 12 are ff 02 00 00 00 00 00 00 00 00 00 01 ff and whose
  bytes 13, 14 and 15 are those of \<open>a\<close>, in a debug build and in a release build alike.
\<close>

theorem solicited_node:
  "\<not> isMulticast a \<Longrightarrow>
   getSolicitedNodeAddress dcheck a =
     Inr \<lparr>addr = [0xff, 0x02, 0x00, 0x00, 0x00, 0x00, 0x00, 0x00,
                 0x00, 0x00, 0x00, 0x01, 0xff, addr a ! 13, addr a ! 14, addr a ! 15],
          scope = 0\<rparr>"
  by (simp add: getSolicitedNodeAddress_def fromBinary_def setFromBinary_def
      IPAddressV6_default_def Let_def eval_nat_numeral)

theorem solicited_node_witness:
  "\<not> isMulticast \<lparr>addr = [0xfe, 0x80, 0, 0, 0, 0, 0, 0, 0, 0, 0, 0, 0x12, 0x34, 0x56, 0x78],
                   scope = 0\<rparr> \<and>
   getSolicitedNodeAddress True
     \<lparr>addr = [0xfe, 0x80, 0, 0, 0, 0, 0, 0, 0, 0, 0, 0, 0x12, 0x34, 0x56, 0x78], scope = 0\<rparr> =
     Inr \<lparr>addr = [0xff, 0x02, 0, 0, 0, 0, 0, 0, 0, 0, 0, 0x01, 0xff, 0x34, 0x56, 0x78],
          scope = 0\<rparr>"
  using solicited_node
    [of "\<lparr>addr = [0xfe, 0x80, 0, 0, 0, 0, 0, 0, 0, 0, 0, 0, 0x12, 0x34, 0x56, 0x78], scope = 0\<rparr>"
        True]
  by (simp add: isMulticast_def)

section \<open>Word unpacking and classification\<close>

lemma unpack_hi: "ucast (drop_bit 8 (unpack l h)) = h"
  by (rule bit_word_eqI) (auto simp: unpack_def bit_simps dest: bit_imp_le_length)

lemma unpack_lo: "ucast (unpack l h) = l"
  by (rule bit_word_eqI) (auto simp: unpack_def bit_simps dest: bit_imp_le_length)

lemma ff00: "(0xFF00 :: 16 word) = push_bit 8 (mask 8)"
  by (simp add: mask_eq_exp_minus_1 push_bit_eq_mult)
lemma ff: "(0x00FF :: 16 word) = mask 8"
  by (simp add: mask_eq_exp_minus_1)

lemma unpack_and_hi: "ucast (drop_bit 8 (unpack l h AND 0xFF00)) = h"
  unfolding ff00 by (rule bit_word_eqI) (auto simp: unpack_def bit_simps dest: bit_imp_le_length)

lemma unpack_and_hi': "ucast (drop_bit 8 (unpack l h) AND (255 :: 16 word)) = h"
  unfolding ff by (rule bit_word_eqI) (auto simp: unpack_def bit_simps dest: bit_imp_le_length)

lemma unpack_and_lo: "ucast (unpack l h AND 0x00FF) = l"
  unfolding ff by (rule bit_word_eqI) (auto simp: unpack_def bit_simps dest: bit_imp_le_length)

lemma unpack_inj: "(unpack l h = unpack l' h') = (l = l' \<and> h = h')"
  by (metis unpack_hi unpack_lo)

lemma cat_hi: "ucast (drop_bit 16 (push_bit 16 (ucast (a :: 16 word)) OR ucast (b :: 16 word) :: 32 word)) = a"
  by (rule bit_word_eqI) (auto simp: bit_simps dest: bit_imp_le_length)

lemma cat_lo: "ucast (push_bit 16 (ucast (a :: 16 word)) OR ucast (b :: 16 word) :: 32 word) = b"
  by (rule bit_word_eqI) (auto simp: bit_simps dest: bit_imp_le_length)

lemma cat_inj:
  "((push_bit 16 (ucast (a :: 16 word)) OR ucast (b :: 16 word) :: 32 word) =
    push_bit 16 (ucast (a' :: 16 word)) OR ucast (b' :: 16 word)) = (a = a' \<and> b = b')"
  by (metis cat_hi cat_lo)

lemma up_down: "ucast (ucast (a :: 16 word) :: 32 word) = a"
  by (rule bit_word_eqI) (auto simp: bit_simps)

lemma up_inj: "((ucast (a :: 16 word) :: 32 word) = ucast b) = (a = b)"
  by (metis up_down)

lemma teredo_const:
  "PREFIX_TEREDO = push_bit 16 (ucast (unpack 0x01 0x20)) OR ucast (unpack 0x00 0x00)"
  by (simp add: PREFIX_TEREDO_def unpack_def)

lemma sixtofour_const: "PREFIX_6TO4 = ucast (unpack 0x02 0x20)"
  by (simp add: PREFIX_6TO4_def unpack_def)

lemma unpackInto2: "unpackInto src [0, 0] 2 = [unpack (src ! 1) (src ! 0), unpack (src ! 3) (src ! 2)]"
  by (simp add: unpackInto_def unpackInto_loop.simps eval_nat_numeral)

lemma unpackInto4: "unpackInto src [0, 0, 0, 0] 4 =
   [unpack (src ! 1) (src ! 0), unpack (src ! 3) (src ! 2), unpack (src ! 5) (src ! 4), unpack (src ! 7) (src ! 6)]"
  by (simp add: unpackInto_def unpackInto_loop.simps eval_nat_numeral)

lemma type_unfold:
  "type a =
     (if unpack (addr a ! 1) (addr a ! 0) = unpack 0x01 0x20 \<and>
         unpack (addr a ! 3) (addr a ! 2) = unpack 0x00 0x00 then TEREDO
      else if unpack (addr a ! 1) (addr a ! 0) = unpack 0x02 0x20 then T6TO4
      else NORMAL)"
  by (simp add: type_def unpackInto2 teredo_const sixtofour_const cat_inj up_inj del: unpack_inj)

text \<open>
  C3. For every address \<open>a\<close>, \<open>type\<close> returns \<open>TEREDO\<close> exactly when bytes 0 to 3 are
  20 01 00 00, returns \<open>T6TO4\<close> exactly when that is not so and bytes 0 and 1 are 20 02,
  and returns \<open>NORMAL\<close> otherwise; no address is classified both as Teredo and as 6to4.
\<close>

theorem type_classification:
  "(type a = TEREDO) =
     (addr a ! 0 = 0x20 \<and> addr a ! 1 = 0x01 \<and> addr a ! 2 = 0x00 \<and> addr a ! 3 = 0x00) \<and>
   (type a = T6TO4) =
     (\<not> (addr a ! 0 = 0x20 \<and> addr a ! 1 = 0x01 \<and> addr a ! 2 = 0x00 \<and> addr a ! 3 = 0x00) \<and>
      addr a ! 0 = 0x20 \<and> addr a ! 1 = 0x02) \<and>
   (type a = NORMAL) =
     (\<not> (addr a ! 0 = 0x20 \<and> addr a ! 1 = 0x01 \<and> addr a ! 2 = 0x00 \<and> addr a ! 3 = 0x00) \<and>
      \<not> (addr a ! 0 = 0x20 \<and> addr a ! 1 = 0x02)) \<and>
   \<not> (type a = TEREDO \<and> type a = T6TO4)"
  by (auto simp: type_unfold unpack_inj)

lemma unpackInto_loop_nth:
  "k < length dest \<Longrightarrow>
   unpackInto_loop src dest count i hi lo ! k =
     (if i \<le> k \<and> k < count then unpack (src ! (hi + 2 * (k - i))) (src ! (lo + 2 * (k - i)))
      else dest ! k)"
proof (induction src dest count i hi lo rule: unpackInto_loop.induct)
  case (1 src dest count i hi lo)
  show ?case
  proof (cases "i < count")
    case False
    then have "unpackInto_loop src dest count i hi lo = dest"
      by (subst unpackInto_loop.simps) simp
    moreover have "\<not> (i \<le> k \<and> k < count)" using False by linarith
    ultimately show ?thesis by (simp only: if_False)
  next
    case True
    have len: "k < length (dest[i := unpack (src ! hi) (src ! lo)])" using "1.prems" by simp
    have step: "unpackInto_loop src dest count i hi lo =
        unpackInto_loop src (dest[i := unpack (src ! hi) (src ! lo)]) count (i + 1) (hi + 2) (lo + 2)"
      using True by (subst unpackInto_loop.simps) simp
    have ih: "unpackInto_loop src (dest[i := unpack (src ! hi) (src ! lo)]) count (i + 1) (hi + 2) (lo + 2) ! k =
        (if i + 1 \<le> k \<and> k < count
         then unpack (src ! (hi + 2 + 2 * (k - (i + 1)))) (src ! (lo + 2 + 2 * (k - (i + 1))))
         else dest[i := unpack (src ! hi) (src ! lo)] ! k)"
      by (rule "1.IH" [OF True len])
    consider "k = i" | "k < i" | "i < k" by linarith
    then show ?thesis
    proof cases
      case 1
      then show ?thesis unfolding step ih using True "1.prems" by simp
    next
      case 2
      then show ?thesis unfolding step ih by simp
    next
      case 3
      then obtain d where d: "k = Suc (i + d)" using less_imp_Suc_add by blast
      show ?thesis by (simp only: step ih) (simp add: d)
    qed
  qed
qed

text \<open>
  C4, as amended. The word-unpacking helper makes the \<open>i\<close>-th 16-bit word from byte
  \<open>2 * i\<close> as its high byte and byte \<open>2 * i + 1\<close> as its low byte (the big-endian
  reading), for every \<open>i\<close> below the count, the destination holding at least as many
  words as the count. The claim as written, with byte \<open>2 * i + 1\<close> high and byte
  \<open>2 * i\<close> low, fails on the buffer that starts 20 01, whose first word is 0x2001.
\<close>

theorem unpackInto_words:
  "count \<le> length dest \<Longrightarrow> i < count \<Longrightarrow>
   unpackInto src dest count ! i = push_bit 8 (ucast (src ! (2 * i))) OR ucast (src ! (2 * i + 1))"
  by (simp add: unpackInto_def unpackInto_loop_nth unpack_def)

theorem unpackInto_words_counterexample:
  "unpackInto [0x20, 0x01, 0, 0, 0, 0, 0, 0, 0, 0, 0, 0, 0, 0, 0, 0] [0, 0] 2 ! 0 \<noteq>
   push_bit 8 (ucast ([0x20, 0x01, 0, 0, 0, 0, 0, 0, 0, 0, 0, 0, 0, 0, 0, 0 :: 8 word] ! (2 * 0 + 1))) OR
   ucast ([0x20, 0x01, 0, 0, 0, 0, 0, 0, 0, 0, 0, 0, 0, 0, 0, 0 :: 8 word] ! (2 * 0))"
  by (simp add: unpackInto2 unpack_def)

theorem unpackInto_words_witness:
  "(2::nat) \<le> length [0, 0 :: 16 word] \<and> (0::nat) < 2 \<and>
   unpackInto [0x20, 0x01, 0, 0, 0, 0, 0, 0, 0, 0, 0, 0, 0, 0, 0, 0] [0, 0] 2 ! 0 = 0x2001"
  using unpackInto_words [of 2 "[0, 0]" 0 "[0x20, 0x01, 0, 0, 0, 0, 0, 0, 0, 0, 0, 0, 0, 0, 0, 0]"]
  by simp

lemma hex_of_sample:
  "hex_of_bytes [0x20, 0x01, 0x0d, 0xb8, 0, 0, 0, 0, 0, 0, 0, 0, 0, 0, 0, 1] 16 =
     ''20010db8000000000000000000000001''"
  by code_simp

text \<open>
  C5, as amended. For every address \<open>a\<close>, \<open>getIPv4For6To4\<close> fails exactly when the
  classification is not 6to4. The failure is the type error, carrying the rendered address,
  when the platform renders the address for the message; when the platform's rendering
  reports an error, the failure is the format exception that \<open>str\<close> throws, carrying the
  hex dump of the buffer. On a 6to4 address the call returns the IPv4 address whose octets
  are bytes 2, 3, 4 and 5 of the buffer, in that order. The claim as written, a type error on
  every address that is not 6to4, fails on 2001:db8::1 where the rendering reports an error.
\<close>

theorem getIPv4For6To4_result:
  "((\<exists>e. getIPv4For6To4 c a = Inl e) = (type a \<noteq> T6TO4)) \<and>
   (type a \<noteq> T6TO4 \<and> getnameinfo c (addr a) (scope a) = Some s \<longrightarrow>
      getIPv4For6To4 c a =
        Inl (TypeError (''Invalid IP '' @ [CHR 0x27] @ s @ [CHR 0x27] @ '': not a 6to4 address''))) \<and>
   (type a \<noteq> T6TO4 \<and> getnameinfo c (addr a) (scope a) = None \<longrightarrow>
      getIPv4For6To4 c a =
        Inl (IPAddressFormatException
               (''Invalid address with hex '' @ [CHR 0x27] @ toHex c (addr a) 16 @ [CHR 0x27]))) \<and>
   (type a = T6TO4 \<longrightarrow>
      getIPv4For6To4 c a =
        Inr (IPAddressV4 (addr a ! 2) (addr a ! 3) (addr a ! 4) (addr a ! 5)))"
  by (auto simp: getIPv4For6To4_def is6To4_def str_def unpackInto4 unpack_and_hi unpack_and_hi' unpack_and_lo
      split: option.splits)

theorem getIPv4For6To4_result_counterexample:
  "type \<lparr>addr = [0x20, 0x01, 0x0d, 0xb8, 0, 0, 0, 0, 0, 0, 0, 0, 0, 0, 0, 1], scope = 0\<rparr> \<noteq> T6TO4 \<and>
   getIPv4For6To4 failing_platform
     \<lparr>addr = [0x20, 0x01, 0x0d, 0xb8, 0, 0, 0, 0, 0, 0, 0, 0, 0, 0, 0, 1], scope = 0\<rparr> =
     Inl (IPAddressFormatException
            (''Invalid address with hex '' @ [CHR 0x27] @ ''20010db8000000000000000000000001'' @ [CHR 0x27]))"
proof -
  let ?b = "\<lparr>addr = [0x20, 0x01, 0x0d, 0xb8, 0, 0, 0, 0, 0, 0, 0, 0, 0, 0, 0, 1], scope = 0\<rparr>"
  have tb: "type ?b \<noteq> T6TO4" by (simp add: type_unfold unpack_inj)
  have "getIPv4For6To4 failing_platform ?b =
      Inl (IPAddressFormatException
             (''Invalid address with hex '' @ [CHR 0x27] @ hex_of_bytes (addr ?b) 16 @ [CHR 0x27]))"
    using tb by (simp add: getIPv4For6To4_def is6To4_def str_def failing_platform_def)
  then show ?thesis using tb by (simp add: hex_of_sample)
qed

theorem getIPv4For6To4_result_witness:
  "type \<lparr>addr = [0x20, 0x02, 0xc0, 0x00, 0x02, 0x01, 0, 0, 0, 0, 0, 0, 0, 0, 0, 1], scope = 0\<rparr> = T6TO4 \<and>
   getIPv4For6To4 (rendering_platform ''2002:c000:201::1'')
     \<lparr>addr = [0x20, 0x02, 0xc0, 0x00, 0x02, 0x01, 0, 0, 0, 0, 0, 0, 0, 0, 0, 1], scope = 0\<rparr> =
     Inr (IPAddressV4 0xc0 0x00 0x02 0x01) \<and>
   type \<lparr>addr = [0x20, 0x01, 0x0d, 0xb8, 0, 0, 0, 0, 0, 0, 0, 0, 0, 0, 0, 1], scope = 0\<rparr> \<noteq> T6TO4 \<and>
   getnameinfo (rendering_platform ''2001:db8::1'')
     [0x20, 0x01, 0x0d, 0xb8, 0, 0, 0, 0, 0, 0, 0, 0, 0, 0, 0, 1] 0 = Some ''2001:db8::1'' \<and>
   getIPv4For6To4 (rendering_platform ''2001:db8::1'')
     \<lparr>addr = [0x20, 0x01, 0x0d, 0xb8, 0, 0, 0, 0, 0, 0, 0, 0, 0, 0, 0, 1], scope = 0\<rparr> =
     Inl (TypeError (''Invalid IP '' @ [CHR 0x27] @ ''2001:db8::1'' @ [CHR 0x27] @ '': not a 6to4 address'')) \<and>
   getnameinfo failing_platform
     [0x20, 0x01, 0x0d, 0xb8, 0, 0, 0, 0, 0, 0, 0, 0, 0, 0, 0, 1] 0 = None \<and>
   getIPv4For6To4 failing_platform
     \<lparr>addr = [0x20, 0x01, 0x0d, 0xb8, 0, 0, 0, 0, 0, 0, 0, 0, 0, 0, 0, 1], scope = 0\<rparr> =
     Inl (IPAddressFormatException
            (''Invalid address with hex '' @ [CHR 0x27] @ ''20010db8000000000000000000000001'' @ [CHR 0x27]))"
proof -
  let ?a = "\<lparr>addr = [0x20, 0x02, 0xc0, 0x00, 0x02, 0x01, 0, 0, 0, 0, 0, 0, 0, 0, 0, 1], scope = 0\<rparr>"
  let ?b = "\<lparr>addr = [0x20, 0x01, 0x0d, 0xb8, 0, 0, 0, 0, 0, 0, 0, 0, 0, 0, 0, 1], scope = 0\<rparr>"
  have ta: "type ?a = T6TO4" by (simp add: type_unfold unpack_inj)
  have tb: "type ?b \<noteq> T6TO4" by (simp add: type_unfold unpack_inj)
  have gs: "getnameinfo (rendering_platform ''2001:db8::1'') (addr ?b) (scope ?b) = Some ''2001:db8::1''"
    by (simp add: rendering_platform_def)
  have gn: "getnameinfo failing_platform (addr ?b) (scope ?b) = None"
    by (simp add: failing_platform_def)
  have hx: "toHex failing_platform (addr ?b) 16 = ''20010db8000000000000000000000001''"
    by (simp add: failing_platform_def hex_of_sample)
  have r1: "getIPv4For6To4 (rendering_platform ''2002:c000:201::1'') ?a =
      Inr (IPAddressV4 0xc0 0x00 0x02 0x01)"
    using getIPv4For6To4_result [of "rendering_platform ''2002:c000:201::1''" ?a] ta by simp
  have r2: "getIPv4For6To4 (rendering_platform ''2001:db8::1'') ?b =
      Inl (TypeError (''Invalid IP '' @ [CHR 0x27] @ ''2001:db8::1'' @ [CHR 0x27] @ '': not a 6to4 address''))"
    using getIPv4For6To4_result [of "rendering_platform ''2001:db8::1''" ?b "''2001:db8::1''"] tb gs
    by simp
  have r3: "getIPv4For6To4 failing_platform ?b =
      Inl (IPAddressFormatException
             (''Invalid address with hex '' @ [CHR 0x27] @ ''20010db8000000000000000000000001'' @ [CHR 0x27]))"
    using getIPv4For6To4_result [of failing_platform ?b] tb gn hx by simp
  show ?thesis using ta tb gs gn r1 r2 r3 by simp
qed

section \<open>IPv4-mapped addresses and hashing\<close>

lemma isIPv4Mapped_loop_iff:
  "isIPv4Mapped_loop by i = (\<forall>k. i \<le> k \<and> k < 10 \<longrightarrow> by ! k = 0)"
proof (induction "by" i rule: isIPv4Mapped_loop.induct)
  case (1 "by" i)
  show ?case
  proof (cases "i < 10")
    case False
    then show ?thesis by (subst isIPv4Mapped_loop.simps) auto
  next
    case True
    show ?thesis
    proof (cases "by ! i = 0")
      case False
      then have "isIPv4Mapped_loop by i = False" using True by (subst isIPv4Mapped_loop.simps) simp
      moreover have "\<not> (\<forall>k. i \<le> k \<and> k < 10 \<longrightarrow> by ! k = 0)" using False True by auto
      ultimately show ?thesis by simp
    next
      case z: True
      have "isIPv4Mapped_loop by i = isIPv4Mapped_loop by (i + 1)"
        using True z by (subst isIPv4Mapped_loop.simps) simp
      also have "\<dots> = (\<forall>k. i + 1 \<le> k \<and> k < 10 \<longrightarrow> by ! k = 0)"
        using "1.IH" [OF True] z by simp
      also have "\<dots> = (\<forall>k. i \<le> k \<and> k < 10 \<longrightarrow> by ! k = 0)"
        using z by (metis Suc_eq_plus1 Suc_leI le_neq_implies_less Suc_leD)
      finally show ?thesis .
    qed
  qed
qed

lemma isIPv4Mapped_iff:
  "isIPv4Mapped a = ((\<forall>i<10. addr a ! i = 0x00) \<and> addr a ! 10 = 0xff \<and> addr a ! 11 = 0xff)"
  by (auto simp: isIPv4Mapped_def isIPv4Mapped_loop_iff Let_def)

text \<open>
  C9. An address is IPv4-mapped exactly when bytes 0 to 9 are zero and bytes 10 and 11 are
  0xFF; for every such address \<open>a\<close>, \<open>createIPv4 a\<close> succeeds and \<open>hash a\<close> is the
  IPv4 hash of the address it returns.
\<close>

theorem hash_mapped:
  "isIPv4Mapped a = ((\<forall>i<10. addr a ! i = 0x00) \<and> addr a ! 10 = 0xff \<and> addr a ! 11 = 0xff) \<and>
   (isIPv4Mapped a \<longrightarrow>
      (\<exists>v4. createIPv4 a = Inr v4 \<and> hash c a = Inr (hashV4 c v4)))"
  by (simp add: isIPv4Mapped_iff [symmetric] hash_def IPAddress_createIPv4_def createIPv4_def)

theorem hash_mapped_witness:
  "isIPv4Mapped \<lparr>addr = [0, 0, 0, 0, 0, 0, 0, 0, 0, 0, 0xff, 0xff, 192, 0, 2, 1], scope = 0\<rparr> \<and>
   createIPv4 \<lparr>addr = [0, 0, 0, 0, 0, 0, 0, 0, 0, 0, 0xff, 0xff, 192, 0, 2, 1], scope = 0\<rparr> =
     Inr (IPAddressV4 192 0 2 1) \<and>
   hash
     \<lparr>getnameinfo = (\<lambda>b s. Some ''2001:db8::1''), toHex = (\<lambda>b n. []),
       hashV4 = (\<lambda>v. case v of IPAddressV4 o0 o1 o2 o3 \<Rightarrow> ucast o0 + ucast o3),
       Hash128 = (\<lambda>b n h1 h2. (h1, h2)), hash_combine = (\<lambda>x y z. x + y + z),
       AF_INET6 = 10\<rparr>
     \<lparr>addr = [0, 0, 0, 0, 0, 0, 0, 0, 0, 0, 0xff, 0xff, 192, 0, 2, 1], scope = 0\<rparr> = Inr 193"
proof -
  let ?c = "\<lparr>getnameinfo = (\<lambda>b s. Some ''2001:db8::1''), toHex = (\<lambda>b n. []),
       hashV4 = (\<lambda>v. case v of IPAddressV4 o0 o1 o2 o3 \<Rightarrow> ucast o0 + ucast o3),
       Hash128 = (\<lambda>b n h1 h2. (h1, h2)), hash_combine = (\<lambda>x y z. x + y + z),
       AF_INET6 = 10\<rparr>"
  let ?a = "\<lparr>addr = [0, 0, 0, 0, 0, 0, 0, 0, 0, 0, 0xff, 0xff, 192, 0, 2, 1], scope = 0\<rparr>"
  have m: "isIPv4Mapped ?a"
    by (simp add: isIPv4Mapped_def isIPv4Mapped_loop.simps)
  have v: "createIPv4 ?a = Inr (IPAddressV4 192 0 2 1)"
    by (simp add: createIPv4_def m mkAddress4_def)
  show ?thesis using hash_mapped [of ?a ?c] m v by simp
qed

end
